theory Spec2Isabelle
  imports Main "HOL-Library.AList"
begin

section \<open>The chat store (frontend/lib/store/chat.ts)\<close>

text \<open>
  A \<open>Date\<close> is its number of milliseconds, an \<open>int\<close>. Every \<open>new Date()\<close>, every
  \<open>generateId()\<close> and every \<open>generateMessageId()\<close> of the source reads the clock or the
  random generator: the model takes each such reading as an argument of the operation
  that makes it, in the order of the source.

  An optional field (\<open>sources?\<close>, \<open>url?\<close>) is an \<open>option\<close>, with \<open>None\<close> for
  \<open>undefined\<close>. Field names of the source that two interfaces share get a prefix.
\<close>

datatype Role = user | assistant

record Source =
  src_id :: string
  title :: string
  url :: "string option"
  source_type :: string
  chunk_index :: "int option"

record Message =
  m_id :: string
  role :: Role
  content :: string
  sources :: "Source list option"
  timestamp :: int

record Conversation =
  c_id :: string
  messages :: "Message list"
  createdAt :: int
  updatedAt :: int

text \<open>
  \<open>conversations\<close> is a JavaScript \<open>Map\<close>: keys in insertion order. It is an association
  list; \<open>map_of\<close> is \<open>Map.get\<close>, \<open>AList.update\<close> is \<open>Map.set\<close> (an existing key keeps
  its place, a new key goes to the end) and \<open>AList.delete\<close> is \<open>Map.delete\<close>.
\<close>

record ChatState =
  currentConversationId :: "string option"
  conversations :: "(string \<times> Conversation) list"
  isLoading :: bool
  error :: "string option"

text \<open>The argument of \<open>addMessage\<close>: \<open>Omit<Message, 'id' | 'timestamp'>\<close>.\<close>

record NewMessage =
  n_role :: Role
  n_content :: string
  n_sources :: "Source list option"

text \<open>
  The argument of \<open>updateMessage\<close>: \<open>Partial<Message>\<close>. \<open>None\<close> is a key that the
  object does not have. The key \<open>sources\<close> can be there with the value \<open>undefined\<close>
  (\<open>Some None\<close>), and the spread then overwrites the field with \<open>undefined\<close>.
\<close>

record Updates =
  u_id :: "string option"
  u_role :: "Role option"
  u_content :: "string option"
  u_sources :: "Source list option option"
  u_timestamp :: "int option"

definition initial_state :: ChatState where
  "initial_state =
     \<lparr>currentConversationId = None, conversations = [], isLoading = False, error = None\<rparr>"

text \<open>\<open>createConversation\<close>: \<open>gid\<close> is \<open>generateId()\<close>, \<open>t1\<close> and \<open>t2\<close> the two dates.\<close>

definition createConversation :: "string \<Rightarrow> int \<Rightarrow> int \<Rightarrow> ChatState \<Rightarrow> string \<times> ChatState" where
  "createConversation gid t1 t2 state =
     (let conversation = \<lparr>c_id = gid, messages = [], createdAt = t1, updatedAt = t2\<rparr>
      in (gid, state\<lparr>conversations := AList.update gid conversation (conversations state),
                     currentConversationId := Some gid\<rparr>))"

definition setCurrentConversation :: "string option \<Rightarrow> ChatState \<Rightarrow> ChatState" where
  "setCurrentConversation cid state = state\<lparr>currentConversationId := cid\<rparr>"

text \<open>
  \<open>addMessage\<close>: \<open>gid\<close> is \<open>generateMessageId()\<close>, \<open>ts\<close> the date of the message,
  \<open>now\<close> the date read for \<open>updatedAt\<close>.
\<close>

definition addMessage ::
  "string \<Rightarrow> NewMessage \<Rightarrow> string \<Rightarrow> int \<Rightarrow> int \<Rightarrow> ChatState \<Rightarrow> ChatState" where
  "addMessage conversationId message gid ts now state =
     (let newMessage = \<lparr>m_id = gid, role = n_role message, content = n_content message,
                         sources = n_sources message, timestamp = ts\<rparr>
      in case map_of (conversations state) conversationId of
           None \<Rightarrow> state
         | Some conversation \<Rightarrow>
             let updatedConversation =
                   conversation\<lparr>messages := messages conversation @ [newMessage],
                                updatedAt := now\<rparr>
             in state\<lparr>conversations :=
                  AList.update conversationId updatedConversation (conversations state)\<rparr>)"

text \<open>The spread \<open>{ ...msg, ...updates }\<close>.\<close>

definition spread :: "Message \<Rightarrow> Updates \<Rightarrow> Message" where
  "spread msg updates =
     \<lparr>m_id = (case u_id updates of None \<Rightarrow> m_id msg | Some v \<Rightarrow> v),
      role = (case u_role updates of None \<Rightarrow> role msg | Some v \<Rightarrow> v),
      content = (case u_content updates of None \<Rightarrow> content msg | Some v \<Rightarrow> v),
      sources = (case u_sources updates of None \<Rightarrow> sources msg | Some v \<Rightarrow> v),
      timestamp = (case u_timestamp updates of None \<Rightarrow> timestamp msg | Some v \<Rightarrow> v)\<rparr>"

definition updateMessage ::
  "string \<Rightarrow> string \<Rightarrow> Updates \<Rightarrow> int \<Rightarrow> ChatState \<Rightarrow> ChatState" where
  "updateMessage conversationId messageId updates now state =
     (case map_of (conversations state) conversationId of
        None \<Rightarrow> state
      | Some conversation \<Rightarrow>
          let updatedMessages =
                map (\<lambda>msg. if m_id msg = messageId then spread msg updates else msg)
                  (messages conversation);
              updatedConversation =
                conversation\<lparr>messages := updatedMessages, updatedAt := now\<rparr>
          in state\<lparr>conversations :=
               AList.update conversationId updatedConversation (conversations state)\<rparr>)"

definition setLoading :: "bool \<Rightarrow> ChatState \<Rightarrow> ChatState" where
  "setLoading loading state = state\<lparr>isLoading := loading\<rparr>"

definition setError :: "string option \<Rightarrow> ChatState \<Rightarrow> ChatState" where
  "setError e state = state\<lparr>error := e\<rparr>"

definition clearError :: "ChatState \<Rightarrow> ChatState" where
  "clearError state = state\<lparr>error := None\<rparr>"

definition deleteConversation :: "string \<Rightarrow> ChatState \<Rightarrow> ChatState" where
  "deleteConversation cid state =
     (let newConversations = AList.delete cid (conversations state);
          newCurrentId = (if currentConversationId state = Some cid then None
                          else currentConversationId state)
      in state\<lparr>conversations := newConversations, currentConversationId := newCurrentId\<rparr>)"

definition loadConversation :: "Conversation \<Rightarrow> ChatState \<Rightarrow> ChatState" where
  "loadConversation conversation state =
     state\<lparr>conversations := AList.update (c_id conversation) conversation (conversations state),
           currentConversationId := Some (c_id conversation)\<rparr>"

fun loadConversations_loop ::
  "Conversation list \<Rightarrow> (string \<times> Conversation) list \<Rightarrow> (string \<times> Conversation) list" where
  "loadConversations_loop [] newConversations = newConversations"
| "loadConversations_loop (conv # rest) newConversations =
     loadConversations_loop rest (AList.update (c_id conv) conv newConversations)"

definition loadConversations :: "Conversation list \<Rightarrow> ChatState \<Rightarrow> ChatState" where
  "loadConversations convs state =
     state\<lparr>conversations := loadConversations_loop convs (conversations state)\<rparr>"

text \<open>
  The conversation listing of the sidebar (components/layout/Sidebar.tsx):
  \<open>Array.from(conversations.values()).sort((a, b) => b.updatedAt - a.updatedAt)\<close>,
  a stable sort, latest first.
\<close>

definition conversationList :: "ChatState \<Rightarrow> Conversation list" where
  "conversationList state = sort_key (\<lambda>c. - updatedAt c) (map snd (conversations state))"

section \<open>The auth store (frontend/lib/store/auth.ts)\<close>

record User =
  user_id :: string
  email :: string
  user_name :: "string option"
  picture :: "string option"

record AuthState =
  a_user :: "User option"
  accessToken :: "string option"
  isAuthenticated :: bool

definition setAuth :: "User \<Rightarrow> string \<Rightarrow> AuthState \<Rightarrow> AuthState" where
  "setAuth u token state = \<lparr>a_user = Some u, accessToken = Some token, isAuthenticated = True\<rparr>"

definition clearAuth :: "AuthState \<Rightarrow> AuthState" where
  "clearAuth state = \<lparr>a_user = None, accessToken = None, isAuthenticated = False\<rparr>"

section \<open>The streaming client (chatApi.streamMessage)\<close>

text \<open>
  The model follows the revision of the API client that reads the auth store (the one whose
  \<open>listConversations\<close> the chat page calls). The older revision has the same reading loop
  and neither the token check nor the check of \<open>response.ok\<close>.

  A chunk of the transport is a list of bytes, and HOL characters are bytes. A JavaScript
  string is a \<open>string\<close> too, with characters up to U+00FF. \<open>TextDecoder.decode\<close>,
  \<open>JSON.parse\<close> and \<open>fetch\<close> belong to the platform: they are arguments of the model.
  \<open>parse\<close> returns \<open>None\<close> where \<open>JSON.parse\<close> throws.
\<close>

type_synonym bytes = string

text \<open>A thrown value: an \<open>Error\<close> with its message, or a value that is no \<open>Error\<close>.\<close>

datatype exn = Error string | Thrown

record request =
  path :: string
  authorization :: string
  req_message :: string
  req_source_type :: "string option"
  req_conversation_id :: "string option"
  req_stream :: bool

text \<open>
  The body of a response: the chunks that \<open>reader.read()\<close> delivers, then the end of the
  stream (\<open>read_error = None\<close>) or a read that rejects.
\<close>

record body =
  chunks :: "bytes list"
  read_error :: "exn option"

record response =
  status :: nat
  body :: "body option"

datatype fetch_result = Rejected exn | Resolved response

definition ok :: "response \<Rightarrow> bool" where
  "ok r = (200 \<le> status r \<and> status r \<le> 299)"

text \<open>\<open>String.prototype.split\<close> with a one-character separator: never an empty result.\<close>

fun split :: "string \<Rightarrow> char \<Rightarrow> string list" where
  "split [] sep = [[]]"
| "split (c # cs) sep =
     (if c = sep then [] # split cs sep
      else (case split cs sep of [] \<Rightarrow> [[c]] | l # ls \<Rightarrow> (c # l) # ls))"

definition startsWith :: "string \<Rightarrow> string \<Rightarrow> bool" where
  "startsWith s p = (take (length p) s = p)"

text \<open>The white space and line terminators of \<open>String.prototype.trim\<close> below U+0100.\<close>

definition isWhiteSpace :: "char \<Rightarrow> bool" where
  "isWhiteSpace c =
     (c \<in> set [CHR 0x09, CHR 0x0A, CHR 0x0B, CHR 0x0C, CHR 0x0D, CHR 0x20, CHR 0xA0])"

definition trim :: "string \<Rightarrow> string" where
  "trim s = rev (dropWhile isWhiteSpace (rev (dropWhile isWhiteSpace s)))"

text \<open>Template literals print a number in decimal.\<close>

fun show_nat :: "nat \<Rightarrow> string" where
  "show_nat n =
     (if n < 10 then [char_of (48 + n)]
      else show_nat (n div 10) @ [char_of (48 + n mod 10)])"

text \<open>The loop \<open>for (const line of lines)\<close>: the events that one chunk yields.\<close>

fun streamMessage_lines :: "(string \<Rightarrow> 'e option) \<Rightarrow> string list \<Rightarrow> 'e list" where
  "streamMessage_lines parse [] = []"
| "streamMessage_lines parse (line # rest) =
     (if startsWith line ''data: '' then
        (let data = drop 6 line
         in if trim data \<noteq> [] then
              (case parse data of
                 Some ev \<Rightarrow> ev # streamMessage_lines parse rest
               | None \<Rightarrow> streamMessage_lines parse rest)
            else streamMessage_lines parse rest)
      else streamMessage_lines parse rest)"

text \<open>
  The loop \<open>while (true)\<close> over the chunks that the reader delivers: each chunk is decoded
  by itself (\<open>decoder.decode(value)\<close>) and split by itself; nothing is kept from one chunk
  to the next.
\<close>

fun streamMessage_read ::
  "(bytes \<Rightarrow> string) \<Rightarrow> (string \<Rightarrow> 'e option) \<Rightarrow> bytes list \<Rightarrow> 'e list" where
  "streamMessage_read decode parse [] = []"
| "streamMessage_read decode parse (val # rest) =
     (let chunk = decode val; lines = split chunk (CHR 0x0A)
      in streamMessage_lines parse lines @ streamMessage_read decode parse rest)"

text \<open>
  The state that \<open>handleSend\<close> and \<open>streamMessage\<close> act on: the two stores, the input field
  of the component and the requests that \<open>fetch\<close> has sent so far.
\<close>

record World =
  chat :: ChatState
  auth :: AuthState
  input :: string
  requests :: "request list"

text \<open>The request that \<open>streamMessage\<close> hands to \<open>fetch\<close>.\<close>

definition stream_request :: "string \<Rightarrow> string \<Rightarrow> string option \<Rightarrow> string \<Rightarrow> request" where
  "stream_request token message sourceType conversationId =
     \<lparr>path = ''/api/chat/stream'', authorization = ''Bearer '' @ token,
      req_message = message, req_source_type = sourceType,
      req_conversation_id = Some conversationId, req_stream = True\<rparr>"

text \<open>
  The generator, run to its end: the world after it, the events it yields in order, and
  the exception that ends it, if any. The consumer takes the events one by one, and stops
  at the first one on which it throws; the generator has no effect on the stores after the
  first event. The text of a response that is not \<open>ok\<close> only goes to the console, and
  reading it (\<open>response.text()\<close>) is taken to succeed.
\<close>

definition streamMessage ::
  "(request \<Rightarrow> fetch_result) \<Rightarrow> (bytes \<Rightarrow> string) \<Rightarrow> (string \<Rightarrow> 'e option) \<Rightarrow>
   string \<Rightarrow> string option \<Rightarrow> string \<Rightarrow> World \<Rightarrow> World \<times> 'e list \<times> exn option" where
  "streamMessage fetch decode parse message sourceType conversationId w =
     (case accessToken (auth w) of
        None \<Rightarrow> (w, [], Some (Error ''Not authenticated. Please sign in.''))
      | Some token \<Rightarrow>
          if token = [] then (w, [], Some (Error ''Not authenticated. Please sign in.''))
          else
            (let req = stream_request token message sourceType conversationId;
                 w1 = w\<lparr>requests := requests w @ [req]\<rparr>
             in case fetch req of
                  Rejected e \<Rightarrow> (w1, [], Some e)
                | Resolved response \<Rightarrow>
                    if \<not> ok response then
                      (if status response = 403 \<or> status response = 401 then
                         (w1\<lparr>auth := clearAuth (auth w1)\<rparr>, [],
                          Some (Error ''Authentication failed. Please sign in again.''))
                       else
                         (w1, [],
                          Some (Error (''HTTP error! status: '' @ show_nat (status response)))))
                    else
                      (case body response of
                         None \<Rightarrow> (w1, [], Some (Error ''No response body''))
                       | Some b \<Rightarrow>
                           (w1, streamMessage_read decode parse (chunks b), read_error b))))"

section \<open>The input controller (components/chat/ChatInput.tsx)\<close>

text \<open>
  A parsed event, as far as \<open>handleSend\<close> reads it: \<open>chunk.type\<close> (a missing type is any
  value that the code does not know), \<open>chunk.content\<close>, \<open>chunk.answer\<close>, \<open>chunk.sources\<close>
  and \<open>chunk.error\<close>, each \<open>None\<close> when the payload has no such key. The payload is taken
  to be an object whose fields have the types the code expects; the payload \<open>null\<close>, on
  which \<open>chunk.type\<close> throws, is outside the model.
\<close>

record Chunk =
  ev_type :: string
  ev_content :: "string option"
  ev_answer :: "string option"
  ev_sources :: "Source list option"
  ev_error :: "string option"

text \<open>
  What \<open>handleSend\<close> reads from outside: the property \<open>sourceType\<close>, the platform,
  \<open>generateId()\<close>, the two results of \<open>generateMessageId()\<close> and the dates. \<open>clock 0\<close> and
  \<open>clock 1\<close> are the dates of \<open>createConversation\<close>, \<open>clock 2\<close> to \<open>clock 5\<close> those of
  the two \<open>addMessage\<close>, \<open>clock (6 + i)\<close> the date of the update that the event at
  position \<open>i\<close> makes, or of the update of the \<open>catch\<close> block after \<open>i\<close> events.
\<close>

record Env =
  sourceType :: "string option"
  fetch :: "request \<Rightarrow> fetch_result"
  TextDecoder_decode :: "bytes \<Rightarrow> string"
  JSON_parse :: "string \<Rightarrow> Chunk option"
  generateId :: string
  generateMessageId :: "nat \<Rightarrow> string"
  clock :: "nat \<Rightarrow> int"

definition content_update :: "string \<Rightarrow> Updates" where
  "content_update c =
     \<lparr>u_id = None, u_role = None, u_content = Some c, u_sources = None, u_timestamp = None\<rparr>"

text \<open>
  The body of \<open>for await (const chunk of stream)\<close>: \<open>Inl\<close> is the \<open>throw\<close>, \<open>Inr\<close> the
  accumulator \<open>fullContent\<close> and the store after the event. \<open>fullContent += chunk.content\<close>
  appends the text \<open>undefined\<close> when the token has no content, and \<open>||\<close> takes its right
  side when the left one is missing or the empty string.
\<close>

definition apply_chunk ::
  "string \<Rightarrow> Chunk \<Rightarrow> int \<Rightarrow> string \<Rightarrow> ChatState \<Rightarrow> exn + string \<times> ChatState" where
  "apply_chunk conversationId chunk now fullContent state =
     (if ev_type chunk = ''token'' then
        (let fullContent' =
               fullContent @ (case ev_content chunk of Some c \<Rightarrow> c | None \<Rightarrow> ''undefined'')
         in case map_of (conversations state) conversationId of
              None \<Rightarrow> Inr (fullContent', state)
            | Some conversation \<Rightarrow>
                if messages conversation \<noteq> [] then
                  (let lastMessage = last (messages conversation)
                   in if role lastMessage = assistant then
                        Inr (fullContent',
                             updateMessage conversationId (m_id lastMessage)
                               (content_update fullContent') now state)
                      else Inr (fullContent', state))
                else Inr (fullContent', state))
      else if ev_type chunk = ''complete'' then
        (case map_of (conversations state) conversationId of
           None \<Rightarrow> Inr (fullContent, state)
         | Some conversation \<Rightarrow>
             if messages conversation \<noteq> [] then
               (let lastMessage = last (messages conversation)
                in if role lastMessage = assistant then
                     Inr (fullContent,
                          updateMessage conversationId (m_id lastMessage)
                            ((content_update
                                (case ev_answer chunk of
                                   None \<Rightarrow> fullContent
                                 | Some a \<Rightarrow> if a \<noteq> [] then a else fullContent))
                             \<lparr>u_sources := Some (ev_sources chunk)\<rparr>) now state)
                   else Inr (fullContent, state))
             else Inr (fullContent, state))
      else if ev_type chunk = ''error'' then
        Inl (Error (case ev_error chunk of
                      None \<Rightarrow> ''Unknown error''
                    | Some e \<Rightarrow> if e \<noteq> [] then e else ''Unknown error''))
      else Inr (fullContent, state))"

text \<open>
  The loop \<open>for await\<close>: \<open>fin\<close> is the exception that ends the generator after its last
  event, \<open>i\<close> counts the events taken so far. The result is the store, the exception that
  leaves the \<open>try\<close> block, if any, and the count.
\<close>

fun for_await ::
  "(nat \<Rightarrow> int) \<Rightarrow> string \<Rightarrow> Chunk list \<Rightarrow> exn option \<Rightarrow> nat \<Rightarrow> string \<Rightarrow> ChatState \<Rightarrow>
   ChatState \<times> exn option \<times> nat" where
  "for_await clk conversationId [] fin i fullContent state = (state, fin, i)"
| "for_await clk conversationId (chunk # rest) fin i fullContent state =
     (case apply_chunk conversationId chunk (clk (6 + i)) fullContent state of
        Inl e \<Rightarrow> (state, Some e, Suc i)
      | Inr (fullContent', state') \<Rightarrow>
          for_await clk conversationId rest fin (Suc i) fullContent' state')"

definition apology :: string where
  "apology = ''Sorry, I encountered an error. Please try again.''"

text \<open>The \<open>catch\<close> block.\<close>

definition catch_block :: "string \<Rightarrow> exn \<Rightarrow> int \<Rightarrow> ChatState \<Rightarrow> ChatState" where
  "catch_block conversationId e now state =
     (let state1 = setError (Some (case e of Error m \<Rightarrow> m | Thrown \<Rightarrow> ''Failed to send message''))
                     state
      in case map_of (conversations state1) conversationId of
           None \<Rightarrow> state1
         | Some conversation \<Rightarrow>
             if messages conversation \<noteq> [] then
               (let lastMessage = last (messages conversation)
                in if role lastMessage = assistant \<and> content lastMessage = [] then
                     updateMessage conversationId (m_id lastMessage) (content_update apology)
                       now state1
                   else state1)
             else state1)"

text \<open>
  The conversation that \<open>handleSend\<close> writes to: the current one, or a new one when there
  is none (\<open>!conversationId\<close> holds for \<open>null\<close> and for the empty string).
\<close>

definition resolve_conversation :: "Env \<Rightarrow> ChatState \<Rightarrow> string \<times> ChatState" where
  "resolve_conversation env state =
     (case currentConversationId state of
        None \<Rightarrow> createConversation (generateId env) (clock env 0) (clock env 1) state
      | Some cid \<Rightarrow>
          if cid = [] then createConversation (generateId env) (clock env 0) (clock env 1) state
          else (cid, state))"

text \<open>
  The statements of \<open>handleSend\<close> in front of its \<open>try\<close> block: the conversation, the
  message of the user, the empty reply, the loading flag and the error. The constant
  \<open>assistantMessageId\<close> that \<open>handleSend\<close> computes is never used: \<open>addMessage\<close> gives the
  reply an id of its own, and the later updates find the reply as the last message.
\<close>

definition dispatch :: "Env \<Rightarrow> string \<Rightarrow> ChatState \<Rightarrow> string \<times> ChatState" where
  "dispatch env messageContent state =
     (let (conversationId, state1) = resolve_conversation env state;
          state2 = addMessage conversationId
                     \<lparr>n_role = user, n_content = messageContent, n_sources = None\<rparr>
                     (generateMessageId env 0) (clock env 2) (clock env 3) state1;
          state3 = addMessage conversationId
                     \<lparr>n_role = assistant, n_content = [], n_sources = None\<rparr>
                     (generateMessageId env 1) (clock env 4) (clock env 5) state2
      in (conversationId, setError None (setLoading True state3)))"

text \<open>
  \<open>handleSend\<close> reads \<open>currentConversationId\<close> from the store as the component last
  rendered it and \<open>isLoading\<close> from the store itself; the model reads both from the store.
\<close>

definition handleSend :: "Env \<Rightarrow> World \<Rightarrow> World" where
  "handleSend env w =
     (if trim (input w) = [] \<or> isLoading (chat w) then w
      else
        (let messageContent = trim (input w);
             w1 = w\<lparr>input := []\<rparr>;
             (conversationId, state4) = dispatch env messageContent (chat w1);
             (w2, events, fin) =
               streamMessage (fetch env) (TextDecoder_decode env) (JSON_parse env) messageContent
                 (sourceType env) conversationId (w1\<lparr>chat := state4\<rparr>);
             (state5, thrown, i) = for_await (clock env) conversationId events fin 0 [] (chat w2);
             state6 = (case thrown of
                         None \<Rightarrow> state5
                       | Some e \<Rightarrow> catch_block conversationId e (clock env (6 + i)) state5)
         in w2\<lparr>chat := setLoading False state6\<rparr>))"



section \<open>Sample data for the concrete runs\<close>

text \<open>
  One event line of the wire format, \<open>data: {"type":"token","content":"Hi"}\<close> with its
  line feed, and the event it parses to. The bytes are all below 0x80, where UTF-8
  decoding returns each byte as a character: the runs decode with \<open>id\<close>. \<open>sample_parse\<close>
  is \<open>JSON.parse\<close> on the strings of the runs: the payload parses to the event, and a
  proper fragment of the payload is no JSON text.
\<close>

definition quoted :: "string \<Rightarrow> string" where
  "quoted s = CHR 0x22 # s @ [CHR 0x22]"

definition token_payload :: string where
  "token_payload =
     ''{'' @ quoted ''type'' @ '':'' @ quoted ''token'' @ '','' @
     quoted ''content'' @ '':'' @ quoted ''Hi'' @ ''}''"

definition token_Hi :: Chunk where
  "token_Hi = \<lparr>ev_type = ''token'', ev_content = Some ''Hi'', ev_answer = None,
                ev_sources = None, ev_error = None\<rparr>"

definition token_stream :: bytes where
  "token_stream = ''data: '' @ token_payload @ [CHR 0x0A]"

definition sample_parse :: "string \<Rightarrow> Chunk option" where
  "sample_parse = map_of [(token_payload, token_Hi)]"

text \<open>A store with two conversations; the first is active and ends with an empty reply.\<close>

definition sample_conversation :: Conversation where
  "sample_conversation =
     \<lparr>c_id = ''c1'',
      messages = [\<lparr>m_id = ''m1'', role = user, content = ''hello'',
                    sources = None, timestamp = 1\<rparr>,
                  \<lparr>m_id = ''m2'', role = assistant, content = [],
                    sources = None, timestamp = 2\<rparr>],
      createdAt = 0, updatedAt = 3\<rparr>"

definition sample_store :: ChatState where
  "sample_store =
     \<lparr>currentConversationId = Some ''c1'',
      conversations =
        [(''c1'', sample_conversation),
         (''c2'', \<lparr>c_id = ''c2'', messages = [], createdAt = 4, updatedAt = 4\<rparr>)],
      isLoading = False, error = None\<rparr>"

definition sample_message :: NewMessage where
  "sample_message = \<lparr>n_role = user, n_content = ''more'', n_sources = None\<rparr>"

text \<open>A completion event with its final text and one source.\<close>

definition complete_Final :: Chunk where
  "complete_Final =
     \<lparr>ev_type = ''complete'', ev_content = None, ev_answer = Some ''Final'',
      ev_sources = Some [\<lparr>src_id = ''s1'', title = ''Doc A'', url = None,
                           source_type = ''confluence'', chunk_index = None\<rparr>],
      ev_error = None\<rparr>"

text \<open>
  A server that answers every request with the status 401, and a signed-in user who has
  typed a question and has no conversation yet.
\<close>

definition sample_env :: Env where
  "sample_env =
     \<lparr>sourceType = None,
      fetch = (\<lambda>req. Resolved \<lparr>status = 401, body = None\<rparr>),
      TextDecoder_decode = id,
      JSON_parse = sample_parse,
      generateId = ''conv_1'',
      generateMessageId = (\<lambda>n. if n = 0 then ''msg_1'' else ''msg_2''),
      clock = int\<rparr>"

definition sample_world :: World where
  "sample_world =
     \<lparr>chat = initial_state,
      auth = \<lparr>a_user = None, accessToken = Some ''tk'', isAuthenticated = True\<rparr>,
      input = '' What is replication? '',
      requests = []\<rparr>"

definition signed_out_world :: World where
  "signed_out_world = sample_world\<lparr>auth := clearAuth (auth sample_world)\<rparr>"

text \<open>The store of both worlds after the statements in front of \<open>try\<close>.\<close>

definition dispatched_store :: ChatState where
  "dispatched_store =
     \<lparr>currentConversationId = Some ''conv_1'',
      conversations =
        [(''conv_1'',
          \<lparr>c_id = ''conv_1'',
           messages = [\<lparr>m_id = ''msg_1'', role = user, content = ''What is replication?'',
                         sources = None, timestamp = 2\<rparr>,
                       \<lparr>m_id = ''msg_2'', role = assistant, content = [],
                         sources = None, timestamp = 4\<rparr>],
           createdAt = 0, updatedAt = 5\<rparr>)],
      isLoading = True, error = None\<rparr>"

lemmas sample_defs =
  token_stream_def token_payload_def quoted_def sample_parse_def token_Hi_def
  sample_store_def sample_conversation_def sample_message_def complete_Final_def

lemmas sample_world_defs =
  sample_env_def sample_world_def initial_state_def signed_out_world_def

section \<open>The stream decoder and the chunks of the transport\<close>

lemma split_not_Nil: "split xs sep \<noteq> []"
  by (induction xs) (auto split: list.splits)

lemma split_at_separator: "split (xs @ sep # ys) sep = split xs sep @ split ys sep"
  by (induction xs) (auto simp: split_not_Nil split: list.splits)

lemma streamMessage_lines_append:
  "streamMessage_lines parse (ls @ ms)
   = streamMessage_lines parse ls @ streamMessage_lines parse ms"
  by (induction ls) (auto simp: Let_def split: option.splits)

text \<open>A text that ends with the separator can be cut off in front of any other text.\<close>

lemma streamMessage_lines_terminated:
  assumes "xs = [] \<or> last xs = sep"
  shows "streamMessage_lines parse (split (xs @ ys) sep)
         = streamMessage_lines parse (split xs sep) @ streamMessage_lines parse (split ys sep)"
proof (cases "xs = []")
  case True
  then show ?thesis by (simp add: startsWith_def)
next
  case False
  with assms have "xs = butlast xs @ [sep]"
    by (metis append_butlast_last_id)
  then obtain zs where zs: "xs = zs @ [sep]" ..
  have "split (xs @ ys) sep = split zs sep @ split ys sep"
    using split_at_separator [of zs sep ys] by (simp add: zs)
  moreover have "split xs sep = split zs sep @ [[]]"
    using split_at_separator [of zs sep "[]"] by (simp add: zs)
  ultimately show ?thesis
    by (simp add: streamMessage_lines_append startsWith_def)
qed

lemma streamMessage_read_append:
  "streamMessage_read decode parse (cs @ ds)
   = streamMessage_read decode parse cs @ streamMessage_read decode parse ds"
  by (induction cs) (simp_all add: Let_def)

lemma streamMessage_read_text:
  "\<forall>c \<in> set cs. decode c = [] \<or> last (decode c) = CHR 0x0A \<Longrightarrow>
   streamMessage_read decode parse cs
   = streamMessage_lines parse (split (concat (map decode cs)) (CHR 0x0A))"
proof (induction cs)
  case Nil
  then show ?case by (simp add: startsWith_def)
next
  case (Cons c cs)
  then show ?case
    by (simp add: Let_def streamMessage_lines_terminated)
qed

text \<open>
  C1, as the code has it. The decoder keeps nothing from one chunk to the next: the events
  of a sequence of chunks are the events of each chunk by itself, one after the other. So
  the events do not depend on the chunking when every chunk ends with a line feed (and
  the chunks decode one by one to the text of the whole stream): they are the events of
  the stream read as one chunk.
\<close>

theorem streamMessage_read_whole_lines:
  "streamMessage_read decode parse (cs @ ds)
     = streamMessage_read decode parse cs @ streamMessage_read decode parse ds \<and>
   ((\<forall>c \<in> set cs. decode c = [] \<or> last (decode c) = CHR 0x0A) \<and>
    decode (concat cs) = concat (map decode cs) \<longrightarrow>
    streamMessage_read decode parse cs = streamMessage_read decode parse [concat cs])"
  by (simp add: streamMessage_read_append streamMessage_read_text Let_def)

text \<open>C1, an instance: two event lines, delivered as two chunks or as one.\<close>

theorem streamMessage_read_whole_lines_witness:
  "last (id token_stream) = CHR 0x0A \<and>
   id (concat [token_stream, token_stream]) = concat (map id [token_stream, token_stream]) \<and>
   streamMessage_read id sample_parse [token_stream, token_stream] = [token_Hi, token_Hi] \<and>
   streamMessage_read id sample_parse [concat [token_stream, token_stream]]
     = [token_Hi, token_Hi]"
  using streamMessage_read_whole_lines [of id sample_parse "[token_stream, token_stream]" "[]"]
  by (simp add: sample_defs startsWith_def trim_def isWhiteSpace_def)

text \<open>
  C1 as stated fails. The stream of one event line yields its event when it comes as one
  chunk. Cut after 11 bytes, inside the payload, it yields nothing: the first chunk is a
  line whose payload does not parse, the second is a line without the prefix, and the
  decoder has kept nothing of the first chunk. Cut after 3 bytes, inside the prefix, it
  yields nothing either.
\<close>

theorem streamMessage_read_split_counterexample:
  "take 11 token_stream @ drop 11 token_stream = token_stream \<and>
   take 11 token_stream = ''data: {'' @ [CHR 0x22] @ ''typ'' \<and>
   streamMessage_read id sample_parse [token_stream] = [token_Hi] \<and>
   streamMessage_read id sample_parse [take 11 token_stream, drop 11 token_stream] = [] \<and>
   take 3 token_stream @ drop 3 token_stream = token_stream \<and>
   streamMessage_read id sample_parse [take 3 token_stream, drop 3 token_stream] = []"
  by (simp add: sample_defs startsWith_def trim_def isWhiteSpace_def)

section \<open>The operations of the store\<close>

lemma spread_twice:
  "(\<lambda>msg. if m_id msg = mid then spread msg u else msg) \<circ>
     (\<lambda>msg. if m_id msg = mid then spread msg u else msg)
   = (\<lambda>msg. if m_id msg = mid then spread msg u else msg)"
  by (auto simp: fun_eq_iff spread_def split: option.splits)

lemma map_unknown_id:
  "mid \<notin> set (map m_id ms) \<Longrightarrow>
   map (\<lambda>msg. if m_id msg = mid then spread msg u else msg) ms = ms"
  by (induction ms) auto

lemma map_fields_spread:
  assumes "u_id u = None" "u_role u = None" "u_timestamp u = None"
  shows "map m_id (map (\<lambda>msg. if m_id msg = mid then spread msg u else msg) ms) = map m_id ms"
    and "map role (map (\<lambda>msg. if m_id msg = mid then spread msg u else msg) ms) = map role ms"
    and "map timestamp (map (\<lambda>msg. if m_id msg = mid then spread msg u else msg) ms)
         = map timestamp ms"
  using assms by (induction ms) (auto simp: spread_def)

text \<open>
  C2, as the code has it. With an unknown conversation id \<open>updateMessage\<close> returns the
  state it got. With a known conversation and a message id that none of its messages has,
  the message list stays as it is and so does the rest of the state, except that the
  conversation gets the date of the call as its \<open>updatedAt\<close>.
\<close>

theorem updateMessage_unknown_ids:
  "(map_of (conversations state) cid = None \<longrightarrow> updateMessage cid mid u now state = state) \<and>
   (\<forall>conv. map_of (conversations state) cid = Some conv \<and>
           mid \<notin> set (map m_id (messages conv)) \<longrightarrow>
      updateMessage cid mid u now state
        = state\<lparr>conversations :=
                  AList.update cid (conv\<lparr>updatedAt := now\<rparr>) (conversations state)\<rparr>)"
  by (auto simp: updateMessage_def map_unknown_id Let_def simp del: set_map)

text \<open>C2, two instances: an unknown conversation, and an unknown message of a known one.\<close>

theorem updateMessage_unknown_ids_witness:
  "map_of (conversations sample_store) ''c9'' = None \<and>
   updateMessage ''c9'' ''m1'' (content_update ''x'') 7 sample_store = sample_store \<and>
   map_of (conversations sample_store) ''c1'' = Some sample_conversation \<and>
   ''m9'' \<notin> set (map m_id (messages sample_conversation)) \<and>
   updateMessage ''c1'' ''m9'' (content_update ''x'') 7 sample_store
     = sample_store\<lparr>conversations :=
         AList.update ''c1'' (sample_conversation\<lparr>updatedAt := 7\<rparr>)
           (conversations sample_store)\<rparr>"
  using updateMessage_unknown_ids [of sample_store "''c9''" "''m1''" "content_update ''x''" 7]
    updateMessage_unknown_ids [of sample_store "''c1''" "''m9''" "content_update ''x''" 7]
  by (simp add: sample_defs)

text \<open>
  C2 as stated fails: the conversation \<open>c1\<close> is known, no message of it has the id \<open>m9\<close>,
  and the call changes the state, since \<open>updatedAt\<close> goes from 3 to 7.
\<close>

theorem updateMessage_unknown_message_counterexample:
  "map_of (conversations sample_store) ''c1'' = Some sample_conversation \<and>
   ''m9'' \<notin> set (map m_id (messages sample_conversation)) \<and>
   updateMessage ''c1'' ''m9'' (content_update ''x'') 7 sample_store \<noteq> sample_store \<and>
   map (updatedAt \<circ> snd) (conversations sample_store) = [3, 4] \<and>
   map (updatedAt \<circ> snd)
     (conversations (updateMessage ''c1'' ''m9'' (content_update ''x'') 7 sample_store)) = [7, 4]"
  by (simp add: sample_defs updateMessage_def content_update_def)

text \<open>
  C3, as the code has it. Two calls of \<open>updateMessage\<close> with the same arguments, at the
  dates \<open>t1\<close> and \<open>t2\<close>, leave the state that the one call at \<open>t2\<close> leaves: the second
  call changes nothing but \<open>updatedAt\<close>, which takes the later date.
\<close>

theorem updateMessage_twice:
  "updateMessage cid mid u t2 (updateMessage cid mid u t1 state)
   = updateMessage cid mid u t2 state"
  by (cases "map_of (conversations state) cid")
     (simp_all add: updateMessage_def update_conv' spread_twice Let_def)

text \<open>
  C3 as stated fails: the second call, one millisecond after the first, leaves a state
  that differs from the state after the first call in \<open>updatedAt\<close>.
\<close>

theorem updateMessage_twice_counterexample:
  "updateMessage ''c1'' ''m2'' (content_update ''x'') 8
     (updateMessage ''c1'' ''m2'' (content_update ''x'') 7 sample_store)
   \<noteq> updateMessage ''c1'' ''m2'' (content_update ''x'') 7 sample_store"
  by (simp add: sample_defs updateMessage_def content_update_def spread_def)

text \<open>
  C8. After \<open>deleteConversation\<close> the store has no conversation under the id, the listing
  holds the conversations of the other ids and no others (so none with this id, in a store
  that files each conversation under its own id), and the active id is \<open>null\<close> when it
  was the deleted id and is unchanged otherwise.
\<close>

theorem deleteConversation_removes:
  "map_of (conversations (deleteConversation cid state)) cid = None \<and>
   set (conversationList (deleteConversation cid state))
     = set (map snd (filter (\<lambda>p. fst p \<noteq> cid) (conversations state))) \<and>
   ((\<forall>p \<in> set (conversations state). c_id (snd p) = fst p) \<longrightarrow>
      cid \<notin> c_id ` set (conversationList (deleteConversation cid state))) \<and>
   (currentConversationId state = Some cid \<longrightarrow>
      currentConversationId (deleteConversation cid state) = None) \<and>
   (currentConversationId state \<noteq> Some cid \<longrightarrow>
      currentConversationId (deleteConversation cid state) = currentConversationId state)"
  by (auto simp: deleteConversation_def conversationList_def Let_def AList.delete_eq
        map_of_eq_None_iff image_iff)

text \<open>C8, two instances: the active conversation is deleted, and another one.\<close>

theorem deleteConversation_removes_witness:
  "list_all (\<lambda>p. c_id (snd p) = fst p) (conversations sample_store) \<and>
   currentConversationId sample_store = Some ''c1'' \<and>
   currentConversationId (deleteConversation ''c1'' sample_store) = None \<and>
   currentConversationId sample_store \<noteq> Some ''c2'' \<and>
   currentConversationId (deleteConversation ''c2'' sample_store) = Some ''c1'' \<and>
   map c_id (conversationList (deleteConversation ''c1'' sample_store)) = [''c2''] \<and>
   ''c1'' \<notin> c_id ` set (conversationList (deleteConversation ''c1'' sample_store))"
  using deleteConversation_removes [of "''c1''" sample_store]
    deleteConversation_removes [of "''c2''" sample_store]
  by (simp add: sample_defs deleteConversation_def conversationList_def AList.delete_eq)

text \<open>
  C10. A conversation of the store is still there after \<open>addMessage\<close> and after
  \<open>updateMessage\<close> with updates that have no \<open>id\<close>, \<open>role\<close> or \<open>timestamp\<close>, with the same
  \<open>id\<close> and \<open>createdAt\<close>. After \<open>addMessage\<close> its old messages are the first messages,
  unchanged and in their order. After \<open>updateMessage\<close> it has as many messages as before,
  with the same ids, roles and timestamps at the same positions.
\<close>

theorem addMessage_updateMessage_frame:
  assumes "map_of (conversations state) k = Some c"
    and "u_id u = None" and "u_role u = None" and "u_timestamp u = None"
  shows "(\<exists>c'. map_of (conversations (addMessage cid message gid ts now state)) k = Some c' \<and>
            c_id c' = c_id c \<and> createdAt c' = createdAt c \<and>
            take (length (messages c)) (messages c') = messages c) \<and>
         (\<exists>c'. map_of (conversations (updateMessage cid mid u now state)) k = Some c' \<and>
            c_id c' = c_id c \<and> createdAt c' = createdAt c \<and>
            length (messages c') = length (messages c) \<and>
            map m_id (messages c') = map m_id (messages c) \<and>
            map role (messages c') = map role (messages c) \<and>
            map timestamp (messages c') = map timestamp (messages c))"
proof
  show "\<exists>c'. map_of (conversations (addMessage cid message gid ts now state)) k = Some c' \<and>
            c_id c' = c_id c \<and> createdAt c' = createdAt c \<and>
            take (length (messages c)) (messages c') = messages c"
    using assms(1)
    by (cases "map_of (conversations state) cid")
       (auto simp: addMessage_def update_conv' Let_def)
  show "\<exists>c'. map_of (conversations (updateMessage cid mid u now state)) k = Some c' \<and>
            c_id c' = c_id c \<and> createdAt c' = createdAt c \<and>
            length (messages c') = length (messages c) \<and>
            map m_id (messages c') = map m_id (messages c) \<and>
            map role (messages c') = map role (messages c) \<and>
            map timestamp (messages c') = map timestamp (messages c)"
    using assms(1) map_fields_spread [OF assms(2-4)]
    by (cases "map_of (conversations state) cid")
       (auto simp: updateMessage_def update_conv' Let_def simp del: map_map)
qed

text \<open>C10, an instance: a message is added to the first sample conversation, and its reply is updated.\<close>

theorem addMessage_updateMessage_frame_witness:
  "map_of (conversations sample_store) ''c1'' = Some sample_conversation \<and>
   u_id (content_update ''x'') = None \<and> u_role (content_update ''x'') = None \<and>
   u_timestamp (content_update ''x'') = None \<and>
   (\<exists>c'. map_of (conversations (addMessage ''c1'' sample_message ''m3'' 8 9 sample_store)) ''c1''
           = Some c' \<and>
      c_id c' = ''c1'' \<and> createdAt c' = 0 \<and> length (messages c') = 3 \<and>
      take 2 (messages c') = messages sample_conversation) \<and>
   (\<exists>c'. map_of (conversations
             (updateMessage ''c1'' ''m2'' (content_update ''x'') 9 sample_store)) ''c1''
           = Some c' \<and>
      c_id c' = ''c1'' \<and> createdAt c' = 0 \<and>
      map m_id (messages c') = [''m1'', ''m2''] \<and>
      map role (messages c') = [user, assistant] \<and>
      map timestamp (messages c') = [1, 2] \<and>
      map content (messages c') = [''hello'', ''x''])"
proof -
  have h: "map_of (conversations sample_store) ''c1'' = Some sample_conversation"
    by (simp add: sample_defs)
  have u: "u_id (content_update ''x'') = None" "u_role (content_update ''x'') = None"
    "u_timestamp (content_update ''x'') = None"
    by (simp_all add: content_update_def)
  show ?thesis
    using h u
      addMessage_updateMessage_frame [OF h u, where cid = "''c1''" and message = sample_message
        and gid = "''m3''" and ts = 8 and now = 9 and mid = "''m2''"]
    by (simp add: sample_defs addMessage_def updateMessage_def content_update_def spread_def)
qed

section \<open>The controller\<close>

lemma error_updateMessage [simp]: "error (updateMessage cid mid u now st) = error st"
  by (simp add: updateMessage_def Let_def split: option.splits)

lemma isLoading_updateMessage [simp]: "isLoading (updateMessage cid mid u now st) = isLoading st"
  by (simp add: updateMessage_def Let_def split: option.splits)

lemma error_catch_block:
  "error (catch_block cid e now st)
   = Some (case e of Error m \<Rightarrow> m | Thrown \<Rightarrow> ''Failed to send message'')"
  by (simp add: catch_block_def setError_def Let_def split: option.splits)

text \<open>
  C4. \<open>handleSend\<close> returns at once when the trimmed input is empty or the store is
  loading: the stores, the input field and the list of requests are what they were.
\<close>

theorem handleSend_rejected:
  "trim (input w) = [] \<or> isLoading (chat w) \<Longrightarrow> handleSend env w = w"
  by (simp add: handleSend_def)

text \<open>C4, two instances: a submission while loading, and a submission of blanks.\<close>

theorem handleSend_rejected_witness:
  "isLoading (chat (sample_world\<lparr>chat := setLoading True initial_state\<rparr>)) \<and>
   handleSend sample_env (sample_world\<lparr>chat := setLoading True initial_state\<rparr>)
     = sample_world\<lparr>chat := setLoading True initial_state\<rparr> \<and>
   trim (input (sample_world\<lparr>input := ''   ''\<rparr>)) = [] \<and>
   handleSend sample_env (sample_world\<lparr>input := ''   ''\<rparr>) = sample_world\<lparr>input := ''   ''\<rparr>"
  using handleSend_rejected [of "sample_world\<lparr>chat := setLoading True initial_state\<rparr>" sample_env]
    handleSend_rejected [of "sample_world\<lparr>input := ''   ''\<rparr>" sample_env]
  by (simp add: sample_world_defs setLoading_def trim_def isWhiteSpace_def)

lemma handleSend_no_token:
  assumes "trim (input w) \<noteq> []" and "\<not> isLoading (chat w)"
    and "accessToken (auth w) = None \<or> accessToken (auth w) = Some []"
    and "dispatch env (trim (input w)) (chat w) = (cid, st)"
  shows "handleSend env w
         = w\<lparr>input := [],
              chat := setLoading False
                (catch_block cid (Error ''Not authenticated. Please sign in.'') (clock env 6) st)\<rparr>"
  using assms
  by (auto simp: handleSend_def streamMessage_def Let_def)

text \<open>
  C5. A submission that passes the guard of \<open>handleSend\<close> without a token in the auth
  store (\<open>null\<close> or the empty string) sends no request: the generator throws before
  \<open>fetch\<close>, no event is applied, and the \<open>catch\<close> block runs on the store as the statements
  in front of \<open>try\<close> left it. The error of the store is the message of the generator, and
  the loading flag is off.
\<close>

theorem handleSend_no_credential:
  assumes "trim (input w) \<noteq> []" and "\<not> isLoading (chat w)"
    and "accessToken (auth w) = None \<or> accessToken (auth w) = Some []"
  shows "requests (handleSend env w) = requests w \<and>
         auth (handleSend env w) = auth w \<and>
         error (chat (handleSend env w)) = Some ''Not authenticated. Please sign in.'' \<and>
         \<not> isLoading (chat (handleSend env w)) \<and>
         chat (handleSend env w)
           = setLoading False
               (catch_block (fst (dispatch env (trim (input w)) (chat w)))
                  (Error ''Not authenticated. Please sign in.'') (clock env 6)
                  (snd (dispatch env (trim (input w)) (chat w))))"
proof -
  obtain cid st where d: "dispatch env (trim (input w)) (chat w) = (cid, st)"
    by (cases "dispatch env (trim (input w)) (chat w)")
  show ?thesis
    by (simp add: handleSend_no_token [OF assms d] d setLoading_def error_catch_block)
qed

lemma trim_sample_input: "trim '' What is replication? '' = ''What is replication?''"
  by (simp add: trim_def isWhiteSpace_def)

lemma dispatch_sample:
  "dispatch sample_env ''What is replication?'' initial_state = (''conv_1'', dispatched_store)"
  by (simp add: dispatch_def resolve_conversation_def createConversation_def addMessage_def
        setLoading_def setError_def sample_env_def initial_state_def dispatched_store_def Let_def)

lemma catch_block_sample:
  "map (\<lambda>p. (fst p, map content (messages (snd p))))
     (conversations (catch_block ''conv_1'' e (clock sample_env 6) dispatched_store))
   = [(''conv_1'', [''What is replication?'', apology])]"
  by (simp add: catch_block_def setError_def updateMessage_def content_update_def spread_def
        Let_def dispatched_store_def)

text \<open>
  C5, an instance: the signed-out user submits a question. No request goes out, and the
  new conversation holds the question and the apology.
\<close>

theorem handleSend_no_credential_witness:
  "trim (input signed_out_world) \<noteq> [] \<and>
   \<not> isLoading (chat signed_out_world) \<and>
   accessToken (auth signed_out_world) = None \<and>
   requests signed_out_world = [] \<and>
   requests (handleSend sample_env signed_out_world) = [] \<and>
   error (chat (handleSend sample_env signed_out_world))
     = Some ''Not authenticated. Please sign in.'' \<and>
   \<not> isLoading (chat (handleSend sample_env signed_out_world)) \<and>
   map (\<lambda>p. (fst p, map content (messages (snd p))))
     (conversations (chat (handleSend sample_env signed_out_world)))
     = [(''conv_1'', [''What is replication?'', apology])]"
proof -
  have t: "trim (input signed_out_world) = ''What is replication?''"
    by (simp add: sample_world_defs trim_sample_input)
  have c: "chat signed_out_world = initial_state"
    by (simp add: sample_world_defs)
  have h: "trim (input signed_out_world) \<noteq> []" "\<not> isLoading (chat signed_out_world)"
    "accessToken (auth signed_out_world) = None \<or> accessToken (auth signed_out_world) = Some []"
    by (simp_all add: t c) (simp_all add: sample_world_defs clearAuth_def)
  have r: "requests signed_out_world = []" "accessToken (auth signed_out_world) = None"
    by (simp_all add: sample_world_defs clearAuth_def)
  show ?thesis
    using h r handleSend_no_credential [OF h, of sample_env]
    by (simp add: t c dispatch_sample catch_block_sample setLoading_def error_catch_block)
qed







section \<open>The events of the stream\<close>





















end
